theory Spec2Isabelle
  imports Main "HOL-Library.Word"
begin

unbundle bit_operations_syntax

section \<open>SDISC: a cycle-counted 16-bit instruction-set simulator\<close>

text \<open>
  A shallow embedding of \<^verbatim>\<open>SDISC.hpp\<close>. The C++ class \<^verbatim>\<open>CPU\<close> becomes a record, every
  member function a HOL function from the state before the call to the value returned and
  the state after it. Names follow the source: \<^verbatim>\<open>OP::STP\<close> is \<open>OP_STP\<close>, \<^verbatim>\<open>CPU::RUN\<close> is
  \<open>CPU_RUN\<close>.
\<close>

subsection \<open>Types\<close>

text \<open>
  \<^verbatim>\<open>using BYTE = uint8_t; using WORD = uint16_t; using COUNT = uint64_t;\<close>
  A bit-field \<^verbatim>\<open>BYTE f : 4\<close> holds four bits.
\<close>

type_synonym BYTE = "8 word"
type_synonym WORD = "16 word"
type_synonym COUNT = "64 word"
type_synonym NIBBLE = "4 word"

subsection \<open>Opcodes and their tick costs\<close>

text \<open>
  The enumeration of namespace \<^verbatim>\<open>OP\<close>, value by value. The source gives the name
  \<^verbatim>\<open>DIV\<close> to \<^verbatim>\<open>0xE\<close> and the name \<^verbatim>\<open>MUL\<close> to \<^verbatim>\<open>0xF\<close>; the comments beside the two lines read
  ``Multiply'' and ``Divide'' in that order.
\<close>

definition OP_STP :: NIBBLE where "OP_STP = 0x0"
definition OP_JAL :: NIBBLE where "OP_JAL = 0x1"
definition OP_JIE :: NIBBLE where "OP_JIE = 0x2"
definition OP_JIL :: NIBBLE where "OP_JIL = 0x3"
definition OP_STR :: NIBBLE where "OP_STR = 0x4"
definition OP_LOD :: NIBBLE where "OP_LOD = 0x5"
definition OP_SHB :: NIBBLE where "OP_SHB = 0x6"
definition OP_SLB :: NIBBLE where "OP_SLB = 0x7"
definition OP_AND :: NIBBLE where "OP_AND = 0x8"
definition OP_NND :: NIBBLE where "OP_NND = 0x9"
definition OP_IOR :: NIBBLE where "OP_IOR = 0xA"
definition OP_XOR :: NIBBLE where "OP_XOR = 0xB"
definition OP_ADD :: NIBBLE where "OP_ADD = 0xC"
definition OP_SUB :: NIBBLE where "OP_SUB = 0xD"
definition OP_DIV :: NIBBLE where "OP_DIV = 0xE"
definition OP_MUL :: NIBBLE where "OP_MUL = 0xF"

text \<open>\<^verbatim>\<open>const COUNT tick_count[0x10]\<close>, read at a four-bit index.\<close>

definition tick_count_table :: "COUNT list" where
  "tick_count_table = [2, 4, 6, 6, 12, 8, 4, 4, 4, 4, 4, 4, 8, 8, 16, 32]"

definition tick_count :: "NIBBLE \<Rightarrow> COUNT" where
  "tick_count c = tick_count_table ! unat c"

subsection \<open>Instructions\<close>

text \<open>
  \<^verbatim>\<open>struct Instruction\<close> has the bit-fields \<^verbatim>\<open>code : 4, rega : 4\<close> and an anonymous union of
  \<^verbatim>\<open>struct { BYTE regb : 4, regc : 4; }\<close> with \<^verbatim>\<open>BYTE byte : 8\<close>. The record keeps the four
  named nibbles. The member \<^verbatim>\<open>byte\<close> shares its storage with \<^verbatim>\<open>regb\<close> and \<^verbatim>\<open>regc\<close>; which
  of the two the compiler places in the low-order bits is implementation-defined in C++,
  so the order is a parameter of every function that reads \<^verbatim>\<open>byte\<close>. The compilers for
  little-endian targets (GCC, Clang and MSVC on x86) allocate bit-fields from the low-order
  bit upwards: there the first-declared field \<^verbatim>\<open>regb\<close> is the low nibble of \<^verbatim>\<open>byte\<close>
  (\<open>first_field_low\<close>).
\<close>

record Instruction =
  code :: NIBBLE
  rega :: NIBBLE
  regb :: NIBBLE
  regc :: NIBBLE

datatype bitfield_order = first_field_low | first_field_high

definition byte :: "bitfield_order \<Rightarrow> Instruction \<Rightarrow> BYTE" where
  "byte ord d =
     (case ord of
        first_field_low \<Rightarrow> ucast (regb d) OR push_bit 4 (ucast (regc d))
      | first_field_high \<Rightarrow> push_bit 4 (ucast (regb d)) OR ucast (regc d))"

text \<open>\<^verbatim>\<open>Instruction() : code{OP::STP}, rega{0}, byte{0}\<close> and \<^verbatim>\<open>init_pro = Instruction()\<close>.\<close>

definition init_pro :: Instruction where
  "init_pro = \<lparr>code = OP_STP, rega = 0, regb = 0, regc = 0\<rparr>"

definition init_mem :: WORD where "init_mem = 0xffff"
definition init_reg :: WORD where "init_reg = 0x0000"
definition pro_size :: nat where "pro_size = 0x10000"

subsection \<open>The machine state\<close>

datatype STATE = running | stopped

text \<open>
  The data members of \<^verbatim>\<open>class CPU\<close>. \<^verbatim>\<open>std::array<Instruction, 0x10000> program\<close> is read
  at a \<^verbatim>\<open>WORD\<close>, \<^verbatim>\<open>std::array<WORD, 0x10> reg\<close> at a four-bit field and
  \<^verbatim>\<open>std::array<WORD, 0x10000> mem\<close> at a \<^verbatim>\<open>WORD\<close>, so each array is a total function from its
  index type.
\<close>

record CPU =
  tick :: COUNT
  status :: STATE
  PC :: WORD
  program :: "WORD \<Rightarrow> Instruction"
  reg :: "NIBBLE \<Rightarrow> WORD"
  mem :: "WORD \<Rightarrow> WORD"

text \<open>
  The one instruction that can fail is the division: \<^verbatim>\<open>reg[b] / reg[c]\<close> with a zero divisor
  is undefined behaviour in C++ (a divide trap that ends the process on x86). The source
  has no check and no error channel, so the model gives such a call the outcome
  \<open>Inl NativeDivideByZero\<close>: the call does not return, and there is neither a returned
  tick count nor a machine state afterwards.
\<close>

datatype abort = NativeDivideByZero

subsection \<open>Clock\<close>

text \<open>
  \<^verbatim>\<open>COUNT addTicks(const Instruction& data)
  { tick += OP::tick_count[data.code]; return OP::tick_count[data.code]; }\<close>
\<close>

definition CPU_addTicks :: "Instruction \<Rightarrow> CPU \<Rightarrow> COUNT \<times> CPU" where
  "CPU_addTicks d s = (tick_count (code d), s\<lparr>tick := tick s + tick_count (code d)\<rparr>)"

subsection \<open>Instruction handlers\<close>

text \<open>\<^verbatim>\<open>status = STATE::stopped; return addTicks(data);\<close>\<close>

definition CPU_STP :: "Instruction \<Rightarrow> CPU \<Rightarrow> COUNT \<times> CPU" where
  "CPU_STP d s = CPU_addTicks d (s\<lparr>status := stopped\<rparr>)"

text \<open>
  \<^verbatim>\<open>const WORD old_PC = ++PC; PC = reg[data.regb]; reg[data.rega] = old_PC;\<close>
  The jump target is read before the link register is written.
\<close>

definition CPU_JAL :: "Instruction \<Rightarrow> CPU \<Rightarrow> COUNT \<times> CPU" where
  "CPU_JAL d s =
     (let old_PC = PC s + 1;
          s1 = s\<lparr>PC := old_PC\<rparr>;
          s2 = s1\<lparr>PC := reg s1 (regb d)\<rparr>;
          s3 = s2\<lparr>reg := (reg s2)(rega d := old_PC)\<rparr>
      in CPU_addTicks d s3)"

text \<open>\<^verbatim>\<open>if(reg[data.rega] == reg[data.regb]) { PC = reg[data.regc]; }\<close>\<close>

definition CPU_JIE :: "Instruction \<Rightarrow> CPU \<Rightarrow> COUNT \<times> CPU" where
  "CPU_JIE d s =
     CPU_addTicks d (if reg s (rega d) = reg s (regb d) then s\<lparr>PC := reg s (regc d)\<rparr> else s)"

text \<open>\<^verbatim>\<open>if(reg[data.rega] < reg[data.regb]) { PC = reg[data.regc]; }\<close>\<close>

definition CPU_JIL :: "Instruction \<Rightarrow> CPU \<Rightarrow> COUNT \<times> CPU" where
  "CPU_JIL d s =
     CPU_addTicks d (if reg s (rega d) < reg s (regb d) then s\<lparr>PC := reg s (regc d)\<rparr> else s)"

text \<open>\<^verbatim>\<open>mem[reg[data.regb]] = reg[data.rega];\<close>\<close>

definition CPU_STR :: "Instruction \<Rightarrow> CPU \<Rightarrow> COUNT \<times> CPU" where
  "CPU_STR d s = CPU_addTicks d (s\<lparr>mem := (mem s)(reg s (regb d) := reg s (rega d))\<rparr>)"

text \<open>\<^verbatim>\<open>reg[data.rega] = mem[reg[data.regb]];\<close>\<close>

definition CPU_LOD :: "Instruction \<Rightarrow> CPU \<Rightarrow> COUNT \<times> CPU" where
  "CPU_LOD d s = CPU_addTicks d (s\<lparr>reg := (reg s)(rega d := mem s (reg s (regb d)))\<rparr>)"

text \<open>\<^verbatim>\<open>reg[data.rega] &= 0x00ff; reg[data.rega] |= data.byte << 8;\<close>\<close>

definition CPU_SHB :: "bitfield_order \<Rightarrow> Instruction \<Rightarrow> CPU \<Rightarrow> COUNT \<times> CPU" where
  "CPU_SHB ord d s =
     (let s1 = s\<lparr>reg := (reg s)(rega d := reg s (rega d) AND 0x00ff)\<rparr>;
          s2 = s1\<lparr>reg := (reg s1)(rega d := reg s1 (rega d) OR push_bit 8 (ucast (byte ord d)))\<rparr>
      in CPU_addTicks d s2)"

text \<open>\<^verbatim>\<open>reg[data.rega] &= 0xff00; reg[data.rega] |= data.byte;\<close>\<close>

definition CPU_SLB :: "bitfield_order \<Rightarrow> Instruction \<Rightarrow> CPU \<Rightarrow> COUNT \<times> CPU" where
  "CPU_SLB ord d s =
     (let s1 = s\<lparr>reg := (reg s)(rega d := reg s (rega d) AND 0xff00)\<rparr>;
          s2 = s1\<lparr>reg := (reg s1)(rega d := reg s1 (rega d) OR ucast (byte ord d))\<rparr>
      in CPU_addTicks d s2)"

text \<open>\<^verbatim>\<open>reg[data.rega] = reg[data.regb] & reg[data.regc];\<close>\<close>

definition CPU_AND :: "Instruction \<Rightarrow> CPU \<Rightarrow> COUNT \<times> CPU" where
  "CPU_AND d s = CPU_addTicks d (s\<lparr>reg := (reg s)(rega d := reg s (regb d) AND reg s (regc d))\<rparr>)"

text \<open>\<^verbatim>\<open>reg[data.rega] = ~(reg[data.regb] & reg[data.regc]);\<close>\<close>

definition CPU_NND :: "Instruction \<Rightarrow> CPU \<Rightarrow> COUNT \<times> CPU" where
  "CPU_NND d s =
     CPU_addTicks d (s\<lparr>reg := (reg s)(rega d := NOT (reg s (regb d) AND reg s (regc d)))\<rparr>)"

text \<open>\<^verbatim>\<open>reg[data.rega] = reg[data.regb] | reg[data.regc];\<close>\<close>

definition CPU_IOR :: "Instruction \<Rightarrow> CPU \<Rightarrow> COUNT \<times> CPU" where
  "CPU_IOR d s = CPU_addTicks d (s\<lparr>reg := (reg s)(rega d := reg s (regb d) OR reg s (regc d))\<rparr>)"

text \<open>\<^verbatim>\<open>reg[data.rega] = reg[data.regb] ^ reg[data.regc];\<close>\<close>

definition CPU_XOR :: "Instruction \<Rightarrow> CPU \<Rightarrow> COUNT \<times> CPU" where
  "CPU_XOR d s = CPU_addTicks d (s\<lparr>reg := (reg s)(rega d := reg s (regb d) XOR reg s (regc d))\<rparr>)"

text \<open>
  The arithmetic handlers. The operands are \<^verbatim>\<open>uint16_t\<close>; C++ computes in \<^verbatim>\<open>int\<close> and the
  assignment to \<^verbatim>\<open>reg[data.rega]\<close> keeps the low sixteen bits, which is the arithmetic of
  \<open>16 word\<close>. (A product above \<^verbatim>\<open>INT_MAX\<close> overflows the intermediate \<^verbatim>\<open>int\<close>; the model takes
  the two's-complement result, whose low sixteen bits are those of the exact product.)

  \<^verbatim>\<open>reg[data.rega] = reg[data.regb] + reg[data.regc];\<close>
\<close>

definition CPU_ADD :: "Instruction \<Rightarrow> CPU \<Rightarrow> COUNT \<times> CPU" where
  "CPU_ADD d s = CPU_addTicks d (s\<lparr>reg := (reg s)(rega d := reg s (regb d) + reg s (regc d))\<rparr>)"

text \<open>\<^verbatim>\<open>reg[data.rega] = reg[data.regb] - reg[data.regc];\<close>\<close>

definition CPU_SUB :: "Instruction \<Rightarrow> CPU \<Rightarrow> COUNT \<times> CPU" where
  "CPU_SUB d s = CPU_addTicks d (s\<lparr>reg := (reg s)(rega d := reg s (regb d) - reg s (regc d))\<rparr>)"

text \<open>\<^verbatim>\<open>reg[data.rega] = reg[data.regb] * reg[data.regc];\<close>\<close>

definition CPU_MUL :: "Instruction \<Rightarrow> CPU \<Rightarrow> COUNT \<times> CPU" where
  "CPU_MUL d s = CPU_addTicks d (s\<lparr>reg := (reg s)(rega d := reg s (regb d) * reg s (regc d))\<rparr>)"

text \<open>
  \<^verbatim>\<open>reg[data.rega] = reg[data.regb] / reg[data.regc];\<close>
  There is no test of the divisor before the division.
\<close>

definition CPU_DIV :: "Instruction \<Rightarrow> CPU \<Rightarrow> abort + COUNT \<times> CPU" where
  "CPU_DIV d s =
     (if reg s (regc d) = 0 then Inl NativeDivideByZero
      else Inr (CPU_addTicks d
                 (s\<lparr>reg := (reg s)(rega d := reg s (regb d) div reg s (regc d))\<rparr>)))"

subsection \<open>Dispatch\<close>

text \<open>
  \<^verbatim>\<open>CPU::RUN\<close>: the chain of comparisons of \<^verbatim>\<open>data.code\<close> with the enumerators, in the
  order of the source, and \<^verbatim>\<open>return 0;\<close> after the chain.
\<close>

definition CPU_RUN :: "bitfield_order \<Rightarrow> Instruction \<Rightarrow> CPU \<Rightarrow> abort + COUNT \<times> CPU" where
  "CPU_RUN ord d s =
     (if code d = OP_STP then Inr (CPU_STP d s)
      else if code d = OP_JAL then Inr (CPU_JAL d s)
      else if code d = OP_JIE then Inr (CPU_JIE d s)
      else if code d = OP_JIL then Inr (CPU_JIL d s)
      else if code d = OP_STR then Inr (CPU_STR d s)
      else if code d = OP_LOD then Inr (CPU_LOD d s)
      else if code d = OP_SHB then Inr (CPU_SHB ord d s)
      else if code d = OP_SLB then Inr (CPU_SLB ord d s)
      else if code d = OP_AND then Inr (CPU_AND d s)
      else if code d = OP_NND then Inr (CPU_NND d s)
      else if code d = OP_IOR then Inr (CPU_IOR d s)
      else if code d = OP_XOR then Inr (CPU_XOR d s)
      else if code d = OP_ADD then Inr (CPU_ADD d s)
      else if code d = OP_SUB then Inr (CPU_SUB d s)
      else if code d = OP_MUL then Inr (CPU_MUL d s)
      else if code d = OP_DIV then CPU_DIV d s
      else Inr (0, s))"

subsection \<open>Control: reset, loadProgram, start\<close>

text \<open>
  \<^verbatim>\<open>void reset()\<close> assigns \<^verbatim>\<open>tick\<close> and \<^verbatim>\<open>status\<close> and fills the three arrays. It has no
  assignment to \<^verbatim>\<open>PC\<close>.
\<close>

definition CPU_reset :: "CPU \<Rightarrow> CPU" where
  "CPU_reset s =
     s\<lparr>tick := 0, status := stopped,
       program := (\<lambda>_. init_pro), mem := (\<lambda>_. init_mem), reg := (\<lambda>_. init_reg)\<rparr>"

text \<open>
  The constructor: the default member initialisers (\<^verbatim>\<open>tick = 0\<close>, \<^verbatim>\<open>status = stopped\<close>,
  \<^verbatim>\<open>PC = 0\<close>) and then \<^verbatim>\<open>CPU(){ reset(); }\<close>. The arrays \<^verbatim>\<open>reg\<close> and \<^verbatim>\<open>mem\<close> have no
  initialiser; \<^verbatim>\<open>reset()\<close> overwrites every element, so what stands for them here does not
  show in \<open>CPU_new\<close>.
\<close>

definition CPU_new :: CPU where
  "CPU_new =
     CPU_reset \<lparr>tick = 0, status = stopped, PC = 0,
                program = (\<lambda>_. init_pro), reg = (\<lambda>_. 0), mem = (\<lambda>_. 0)\<rparr>"

text \<open>
  \<^verbatim>\<open>void loadProgram(const std::vector<Instruction>& in_program)\<close>:
  \<^verbatim>\<open>for(std::size_t i = 0; i < pro_size; i++)
  { if(i < in_program.size()) program[i] = in_program[i]; else program[i] = init_pro; }\<close>
\<close>

function loadProgram_loop ::
  "nat \<Rightarrow> Instruction list \<Rightarrow> (WORD \<Rightarrow> Instruction) \<Rightarrow> (WORD \<Rightarrow> Instruction)" where
  "loadProgram_loop i in_program prog =
     (if i < pro_size
      then loadProgram_loop (i + 1) in_program
             (prog(of_nat i := (if i < length in_program then in_program ! i else init_pro)))
      else prog)"
  by pat_completeness auto
termination
  by (relation "measure (\<lambda>(i, in_program, prog). pro_size - i)") auto

definition CPU_loadProgram :: "Instruction list \<Rightarrow> CPU \<Rightarrow> CPU" where
  "CPU_loadProgram in_program s = s\<lparr>program := loadProgram_loop 0 in_program (program s)\<rparr>"

text \<open>
  \<^verbatim>\<open>void start(const WORD start_pc = 0)\<close>:
  \<^verbatim>\<open>PC = start_pc; status = STATE::running;
  while(status != STATE::stopped) RUN(program[PC++]);\<close>
  One turn of the loop fetches at the old \<^verbatim>\<open>PC\<close>, increments \<^verbatim>\<open>PC\<close> (a \<^verbatim>\<open>WORD\<close>, so it
  wraps) and then runs the handler.
\<close>

definition fetch_RUN :: "bitfield_order \<Rightarrow> CPU \<Rightarrow> abort + COUNT \<times> CPU" where
  "fetch_RUN ord s = CPU_RUN ord (program s (PC s)) (s\<lparr>PC := PC s + 1\<rparr>)"

text \<open>
  The loop may run for ever, so it is a partial function: \<open>None\<close> is a run that never
  leaves the loop, \<open>Some (Inl e)\<close> a run ended by the native fault \<open>e\<close>, \<open>Some (Inr s)\<close> a
  return of \<^verbatim>\<open>start\<close> with the final state \<open>s\<close>.
\<close>

partial_function (option) start_loop :: "bitfield_order \<Rightarrow> CPU \<Rightarrow> (abort + CPU) option" where
  "start_loop ord s =
     (if status s \<noteq> stopped
      then (case fetch_RUN ord s of
              Inl e \<Rightarrow> Some (Inl e)
            | Inr (n, s') \<Rightarrow> start_loop ord s')
      else Some (Inr s))"

definition CPU_start :: "bitfield_order \<Rightarrow> WORD \<Rightarrow> CPU \<Rightarrow> (abort + CPU) option" where
  "CPU_start ord start_pc s = start_loop ord (s\<lparr>PC := start_pc, status := running\<rparr>)"

text \<open>
  \<open>cycles ord n s\<close> makes \<open>n\<close> turns of the fetch-and-run step from \<open>s\<close>, whatever the run
  state, and returns the instructions it executed, in order, with the state reached.
\<close>

fun cycles :: "bitfield_order \<Rightarrow> nat \<Rightarrow> CPU \<Rightarrow> abort + Instruction list \<times> CPU" where
  "cycles ord 0 s = Inr ([], s)"
| "cycles ord (Suc n) s =
     (case fetch_RUN ord s of
        Inl e \<Rightarrow> Inl e
      | Inr (t, s') \<Rightarrow>
          (case cycles ord n s' of
             Inl e \<Rightarrow> Inl e
           | Inr (ds, s'') \<Rightarrow> Inr (program s (PC s) # ds, s'')))"

subsection \<open>The instruction word with explicit shifts and masks\<close>

text \<open>
  The variant of the header that stores an instruction as one \<^verbatim>\<open>WORD data\<close> reads the fields
  with accessor functions:
  \<^verbatim>\<open>BYTE code() const { return (data >> 12) & 0xf; }
  BYTE rega() const { return (data >> 8)  & 0xf; }
  BYTE regb() const { return (data >> 4)  & 0xf; }
  BYTE regc() const { return (data >> 0)  & 0xf; }
  BYTE byte() const { return (data >> 0)  & 0xff; }\<close>
  Each is computed on the sixteen-bit word and returned as a \<^verbatim>\<open>BYTE\<close>.
\<close>

definition data_code :: "WORD \<Rightarrow> BYTE" where
  "data_code data = ucast (drop_bit 12 data AND 0xf)"

definition data_rega :: "WORD \<Rightarrow> BYTE" where
  "data_rega data = ucast (drop_bit 8 data AND 0xf)"

definition data_regb :: "WORD \<Rightarrow> BYTE" where
  "data_regb data = ucast (drop_bit 4 data AND 0xf)"

definition data_regc :: "WORD \<Rightarrow> BYTE" where
  "data_regc data = ucast (drop_bit 0 data AND 0xf)"

definition data_byte :: "WORD \<Rightarrow> BYTE" where
  "data_byte data = ucast (drop_bit 0 data AND 0xff)"

section \<open>Auxiliary facts\<close>

lemmas OP_defs =
  OP_STP_def OP_JAL_def OP_JIE_def OP_JIL_def OP_STR_def OP_LOD_def OP_SHB_def OP_SLB_def
  OP_AND_def OP_NND_def OP_IOR_def OP_XOR_def OP_ADD_def OP_SUB_def OP_DIV_def OP_MUL_def

lemmas handler_defs =
  CPU_STP_def CPU_JAL_def CPU_JIE_def CPU_JIL_def CPU_STR_def CPU_LOD_def CPU_SHB_def
  CPU_SLB_def CPU_AND_def CPU_NND_def CPU_IOR_def CPU_XOR_def CPU_ADD_def CPU_SUB_def
  CPU_MUL_def

text \<open>A four-bit field has one of sixteen values, so the chain of comparisons in \<open>CPU_RUN\<close> is exhaustive.\<close>

lemma nibble_neq: "(c::4 word) \<noteq> of_nat k \<Longrightarrow> unat c \<noteq> k"
  by auto

lemma nibble_exhaust:
  fixes c :: "4 word"
  assumes "c \<noteq> 0x0" and "c \<noteq> 0x1" and "c \<noteq> 0x2" and "c \<noteq> 0x3"
    and "c \<noteq> 0x4" and "c \<noteq> 0x5" and "c \<noteq> 0x6" and "c \<noteq> 0x7"
    and "c \<noteq> 0x8" and "c \<noteq> 0x9" and "c \<noteq> 0xA" and "c \<noteq> 0xB"
    and "c \<noteq> 0xC" and "c \<noteq> 0xD" and "c \<noteq> 0xE" and "c \<noteq> 0xF"
  shows False
proof -
  have "unat c < 16" using unsigned_less [of c, where 'a = nat] by simp
  moreover have "unat c \<noteq> 0" using assms(1) nibble_neq [of c 0] by simp
  moreover have "unat c \<noteq> 1" using assms(2) nibble_neq [of c 1] by simp
  moreover have "unat c \<noteq> 2" using assms(3) nibble_neq [of c 2] by simp
  moreover have "unat c \<noteq> 3" using assms(4) nibble_neq [of c 3] by simp
  moreover have "unat c \<noteq> 4" using assms(5) nibble_neq [of c 4] by simp
  moreover have "unat c \<noteq> 5" using assms(6) nibble_neq [of c 5] by simp
  moreover have "unat c \<noteq> 6" using assms(7) nibble_neq [of c 6] by simp
  moreover have "unat c \<noteq> 7" using assms(8) nibble_neq [of c 7] by simp
  moreover have "unat c \<noteq> 8" using assms(9) nibble_neq [of c 8] by simp
  moreover have "unat c \<noteq> 9" using assms(10) nibble_neq [of c 9] by simp
  moreover have "unat c \<noteq> 10" using assms(11) nibble_neq [of c 10] by simp
  moreover have "unat c \<noteq> 11" using assms(12) nibble_neq [of c 11] by simp
  moreover have "unat c \<noteq> 12" using assms(13) nibble_neq [of c 12] by simp
  moreover have "unat c \<noteq> 13" using assms(14) nibble_neq [of c 13] by simp
  moreover have "unat c \<noteq> 14" using assms(15) nibble_neq [of c 14] by simp
  moreover have "unat c \<noteq> 15" using assms(16) nibble_neq [of c 15] by simp
  ultimately show False by arith
qed

lemma tick_count_values:
  "map tick_count [0, 1, 2, 3, 4, 5, 6, 7, 8, 9, 10, 11, 12, 13, 14, 15]
     = [2, 4, 6, 6, 12, 8, 4, 4, 4, 4, 4, 4, 8, 8, 16, 32]"
  by (simp add: tick_count_def tick_count_table_def)

lemma addTicks_fst: "fst (CPU_addTicks d s) = tick_count (code d)"
  by (simp add: CPU_addTicks_def)

lemma addTicks_snd: "snd (CPU_addTicks d s) = s\<lparr>tick := tick s + tick_count (code d)\<rparr>"
  by (simp add: CPU_addTicks_def)

lemma handler_ticks:
  "fst (CPU_STP d s) = tick_count (code d)" "tick (snd (CPU_STP d s)) = tick s + tick_count (code d)"
  "fst (CPU_JAL d s) = tick_count (code d)" "tick (snd (CPU_JAL d s)) = tick s + tick_count (code d)"
  "fst (CPU_JIE d s) = tick_count (code d)" "tick (snd (CPU_JIE d s)) = tick s + tick_count (code d)"
  "fst (CPU_JIL d s) = tick_count (code d)" "tick (snd (CPU_JIL d s)) = tick s + tick_count (code d)"
  "fst (CPU_STR d s) = tick_count (code d)" "tick (snd (CPU_STR d s)) = tick s + tick_count (code d)"
  "fst (CPU_LOD d s) = tick_count (code d)" "tick (snd (CPU_LOD d s)) = tick s + tick_count (code d)"
  "fst (CPU_SHB ord d s) = tick_count (code d)" "tick (snd (CPU_SHB ord d s)) = tick s + tick_count (code d)"
  "fst (CPU_SLB ord d s) = tick_count (code d)" "tick (snd (CPU_SLB ord d s)) = tick s + tick_count (code d)"
  "fst (CPU_AND d s) = tick_count (code d)" "tick (snd (CPU_AND d s)) = tick s + tick_count (code d)"
  "fst (CPU_NND d s) = tick_count (code d)" "tick (snd (CPU_NND d s)) = tick s + tick_count (code d)"
  "fst (CPU_IOR d s) = tick_count (code d)" "tick (snd (CPU_IOR d s)) = tick s + tick_count (code d)"
  "fst (CPU_XOR d s) = tick_count (code d)" "tick (snd (CPU_XOR d s)) = tick s + tick_count (code d)"
  "fst (CPU_ADD d s) = tick_count (code d)" "tick (snd (CPU_ADD d s)) = tick s + tick_count (code d)"
  "fst (CPU_SUB d s) = tick_count (code d)" "tick (snd (CPU_SUB d s)) = tick s + tick_count (code d)"
  "fst (CPU_MUL d s) = tick_count (code d)" "tick (snd (CPU_MUL d s)) = tick s + tick_count (code d)"
  by (simp_all add: handler_defs CPU_addTicks_def Let_def)

lemma handler_program:
  "program (snd (CPU_STP d s)) = program s"
  "program (snd (CPU_JAL d s)) = program s"
  "program (snd (CPU_JIE d s)) = program s"
  "program (snd (CPU_JIL d s)) = program s"
  "program (snd (CPU_STR d s)) = program s"
  "program (snd (CPU_LOD d s)) = program s"
  "program (snd (CPU_SHB ord d s)) = program s"
  "program (snd (CPU_SLB ord d s)) = program s"
  "program (snd (CPU_AND d s)) = program s"
  "program (snd (CPU_NND d s)) = program s"
  "program (snd (CPU_IOR d s)) = program s"
  "program (snd (CPU_XOR d s)) = program s"
  "program (snd (CPU_ADD d s)) = program s"
  "program (snd (CPU_SUB d s)) = program s"
  "program (snd (CPU_MUL d s)) = program s"
  by (simp_all add: handler_defs CPU_addTicks_def Let_def)

lemma DIV_Inr:
  "CPU_DIV d s = Inr (t, s') \<Longrightarrow>
     reg s (regc d) \<noteq> 0 \<and> t = tick_count (code d) \<and> tick s' = tick s + tick_count (code d)
       \<and> program s' = program s"
  by (auto simp: CPU_DIV_def CPU_addTicks_def split: if_splits)

lemma RUN_no_fallthrough:
  "code d \<noteq> OP_STP \<Longrightarrow> code d \<noteq> OP_JAL \<Longrightarrow> code d \<noteq> OP_JIE \<Longrightarrow> code d \<noteq> OP_JIL \<Longrightarrow>
   code d \<noteq> OP_STR \<Longrightarrow> code d \<noteq> OP_LOD \<Longrightarrow> code d \<noteq> OP_SHB \<Longrightarrow> code d \<noteq> OP_SLB \<Longrightarrow>
   code d \<noteq> OP_AND \<Longrightarrow> code d \<noteq> OP_NND \<Longrightarrow> code d \<noteq> OP_IOR \<Longrightarrow> code d \<noteq> OP_XOR \<Longrightarrow>
   code d \<noteq> OP_ADD \<Longrightarrow> code d \<noteq> OP_SUB \<Longrightarrow> code d \<noteq> OP_MUL \<Longrightarrow> code d \<noteq> OP_DIV \<Longrightarrow> False"
  using nibble_exhaust [of "code d"] unfolding OP_defs by blast

lemma RUN_Inr_cases:
  assumes "CPU_RUN ord d s = Inr r"
  shows "r = CPU_STP d s \<or> r = CPU_JAL d s \<or> r = CPU_JIE d s \<or> r = CPU_JIL d s
       \<or> r = CPU_STR d s \<or> r = CPU_LOD d s \<or> r = CPU_SHB ord d s \<or> r = CPU_SLB ord d s
       \<or> r = CPU_AND d s \<or> r = CPU_NND d s \<or> r = CPU_IOR d s \<or> r = CPU_XOR d s
       \<or> r = CPU_ADD d s \<or> r = CPU_SUB d s \<or> r = CPU_MUL d s \<or> CPU_DIV d s = Inr r"
  using assms RUN_no_fallthrough [of d] unfolding CPU_RUN_def
  by (simp split: if_splits)

lemma RUN_ticks:
  assumes "CPU_RUN ord d s = Inr (t, s')"
  shows "t = tick_count (code d) \<and> tick s' = tick s + tick_count (code d)"
proof -
  have "fst (t, s') = tick_count (code d) \<and> tick (snd (t, s')) = tick s + tick_count (code d)"
    using RUN_Inr_cases [OF assms]
    apply (elim disjE)
    apply (simp_all only: handler_ticks simp_thms)
    apply (drule DIV_Inr, simp)
    done
  then show ?thesis by simp
qed

lemma RUN_program:
  assumes "CPU_RUN ord d s = Inr (t, s')"
  shows "program s' = program s"
proof -
  have "program (snd (t, s')) = program s"
    using RUN_Inr_cases [OF assms]
    apply (elim disjE)
    apply (simp_all only: handler_program)
    apply (drule DIV_Inr, simp)
    done
  then show ?thesis by simp
qed

text \<open>The loop of \<^verbatim>\<open>loadProgram\<close> in closed form.\<close>

declare loadProgram_loop.simps [simp del]

lemma word16_eq_of_nat_iff:
  "i < 65536 \<Longrightarrow> ((of_nat i :: 16 word) = a) = (unat a = i)"
  by (auto simp: unat_of_nat)

lemma unat_word16_less: "unat (a :: 16 word) < 65536"
  using unsigned_less [of a, where 'a = nat] by simp

lemma loadProgram_loop_eq:
  "i \<le> pro_size \<Longrightarrow>
   loadProgram_loop i xs prog =
     (\<lambda>a. if i \<le> unat a then (if unat a < length xs then xs ! unat a else init_pro) else prog a)"
proof (induction i xs prog rule: loadProgram_loop.induct)
  case (1 i xs prog)
  show ?case
  proof (cases "i < pro_size")
    case True
    then have i: "i < 65536" by (simp add: pro_size_def)
    have "loadProgram_loop i xs prog =
            loadProgram_loop (i + 1) xs
              (prog(of_nat i := (if i < length xs then xs ! i else init_pro)))"
      using True by (subst loadProgram_loop.simps) simp
    also have "\<dots> = (\<lambda>a. if i + 1 \<le> unat a
                          then (if unat a < length xs then xs ! unat a else init_pro)
                          else (prog(of_nat i := (if i < length xs then xs ! i else init_pro))) a)"
      using True by (intro "1.IH") simp_all
    also have "\<dots> = (\<lambda>a. if i \<le> unat a
                          then (if unat a < length xs then xs ! unat a else init_pro)
                          else prog a)"
    proof (rule ext)
      fix a :: "16 word"
      show "(if i + 1 \<le> unat a
             then (if unat a < length xs then xs ! unat a else init_pro)
             else (prog(of_nat i := (if i < length xs then xs ! i else init_pro))) a)
          = (if i \<le> unat a
             then (if unat a < length xs then xs ! unat a else init_pro)
             else prog a)"
        using word16_eq_of_nat_iff [OF i, of a] by (cases "unat a = i") auto
    qed
    finally show ?thesis .
  next
    case False
    with "1.prems" have "i = pro_size" by simp
    then have "\<And>a :: 16 word. \<not> i \<le> unat a"
      using unat_word16_less by (simp add: pro_size_def not_le)
    moreover have "loadProgram_loop i xs prog = prog"
      using False by (subst loadProgram_loop.simps) simp
    ultimately show ?thesis by simp
  qed
qed

lemma loadProgram_program:
  "program (CPU_loadProgram xs s) a = (if unat a < length xs then xs ! unat a else init_pro)"
  by (simp add: CPU_loadProgram_def loadProgram_loop_eq)

lemma loadProgram_eq:
  "CPU_loadProgram xs s =
     s\<lparr>program := (\<lambda>a. if unat a < length xs then xs ! unat a else init_pro)\<rparr>"
  by (simp add: CPU_loadProgram_def loadProgram_loop_eq)

lemma CPU_new_eq:
  "CPU_new = \<lparr>tick = 0, status = stopped, PC = 0, program = (\<lambda>_. init_pro),
              reg = (\<lambda>_. 0), mem = (\<lambda>_. 0xffff)\<rparr>"
  by (simp add: CPU_new_def CPU_reset_def init_reg_def init_mem_def)

lemma RUN_DIV_zero:
  "code d = OP_DIV \<Longrightarrow> reg s (regc d) = 0 \<Longrightarrow> CPU_RUN ord d s = Inl NativeDivideByZero"
  by (simp add: CPU_RUN_def OP_defs CPU_DIV_def)

text \<open>What one turn of the loop, a sequence of turns and the whole loop preserve.\<close>

lemma fetch_RUN_program:
  "fetch_RUN ord s = Inr (t, s') \<Longrightarrow> program s' = program s"
  unfolding fetch_RUN_def by (drule RUN_program) simp

lemma fetch_RUN_ticks:
  "fetch_RUN ord s = Inr (t, s') \<Longrightarrow>
     t = tick_count (code (program s (PC s)))
     \<and> tick s' = tick s + tick_count (code (program s (PC s)))"
  unfolding fetch_RUN_def by (drule RUN_ticks) simp

lemma cycles_ticks:
  "cycles ord n s = Inr (ds, s') \<Longrightarrow>
     length ds = n \<and> tick s' = tick s + sum_list (map (\<lambda>d. tick_count (code d)) ds)"
proof (induction n arbitrary: s ds s')
  case 0
  then show ?case by simp
next
  case (Suc n)
  from Suc.prems obtain t s1 ds1 where
    f: "fetch_RUN ord s = Inr (t, s1)" and
    c: "cycles ord n s1 = Inr (ds1, s')" and
    d: "ds = program s (PC s) # ds1"
    by (auto split: sum.splits prod.splits)
  from Suc.IH [OF c] fetch_RUN_ticks [OF f] d show ?case by simp
qed

lemma cycles_program:
  "cycles ord n s = Inr (ds, s') \<Longrightarrow> program s' = program s"
proof (induction n arbitrary: s ds s')
  case 0
  then show ?case by simp
next
  case (Suc n)
  from Suc.prems obtain t s1 ds1 where
    f: "fetch_RUN ord s = Inr (t, s1)" and
    c: "cycles ord n s1 = Inr (ds1, s')"
    by (auto split: sum.splits prod.splits)
  from Suc.IH [OF c] fetch_RUN_program [OF f] show ?case by simp
qed

lemma start_loop_program_aux:
  assumes "start_loop ord0 s0 = Some r0"
  shows "\<forall>s'. r0 = Inr s' \<longrightarrow> program s' = program s0"
proof (rule start_loop.raw_induct
         [where P = "\<lambda>ord s r. \<forall>s'. r = Inr s' \<longrightarrow> program s' = program s", OF _ assms])
  fix f :: "bitfield_order \<Rightarrow> CPU \<Rightarrow> (abort + CPU) option" and ord s r
  assume IH: "\<And>ord s r. f ord s = Some r \<Longrightarrow> \<forall>s'. r = Inr s' \<longrightarrow> program s' = program s"
  assume eq: "(if status s \<noteq> stopped
               then case fetch_RUN ord s of Inl e \<Rightarrow> Some (Inl e) | Inr (n, s') \<Rightarrow> f ord s'
               else Some (Inr s)) = Some r"
  show "\<forall>s'. r = Inr s' \<longrightarrow> program s' = program s"
  proof (cases "status s \<noteq> stopped")
    case True
    show ?thesis
    proof (cases "fetch_RUN ord s")
      case (Inl e)
      with True eq show ?thesis by auto
    next
      case (Inr p)
      obtain t s1 where p: "p = (t, s1)" by (cases p)
      with True Inr eq have "f ord s1 = Some r" by simp
      from IH [OF this] fetch_RUN_program [of ord s t s1] Inr p show ?thesis by simp
    qed
  next
    case False
    with eq show ?thesis by auto
  qed
qed

lemma start_loop_program:
  "start_loop ord s = Some (Inr s') \<Longrightarrow> program s' = program s"
  using start_loop_program_aux by blast

lemma start_program:
  "CPU_start ord pc s = Some (Inr s') \<Longrightarrow> program s' = program s"
  unfolding CPU_start_def by (drule start_loop_program) simp

lemma all_STP_program:
  assumes "\<forall>d \<in> set xs. code d = OP_STP"
  shows "code (program (CPU_loadProgram xs s) a) = OP_STP"
  using assms by (simp add: loadProgram_program init_pro_def)

lemma start_STP:
  assumes "code (program s pc) = OP_STP"
  shows "CPU_start ord pc s
           = Some (Inr (s\<lparr>PC := pc + 1, status := stopped, tick := tick s + 2\<rparr>))"
proof -
  have t: "tick_count OP_STP = 2"
    by (simp add: tick_count_def tick_count_table_def OP_STP_def)
  have "fetch_RUN ord (s\<lparr>PC := pc, status := running\<rparr>)
          = Inr (2, s\<lparr>PC := pc + 1, status := stopped, tick := tick s + 2\<rparr>)"
    using assms t by (simp add: fetch_RUN_def CPU_RUN_def CPU_STP_def CPU_addTicks_def)
  then show ?thesis
    unfolding CPU_start_def
    by (subst start_loop.simps, simp, subst start_loop.simps, simp)
qed

lemma tick_count_simps:
  "tick_count 0 = 2" "tick_count 1 = 4" "tick_count 2 = 6" "tick_count 3 = 6"
  "tick_count 4 = 12" "tick_count 5 = 8" "tick_count 6 = 4" "tick_count 7 = 4"
  "tick_count 8 = 4" "tick_count 9 = 4" "tick_count 10 = 4" "tick_count 11 = 4"
  "tick_count 12 = 8" "tick_count 13 = 8" "tick_count 14 = 16" "tick_count 15 = 32"
  by (simp_all add: tick_count_def tick_count_table_def)

text \<open>The masks of the accessor functions, written as \<open>mask\<close>.\<close>

lemma mask4: "(0xf :: 16 word) = mask 4"
  by (simp add: mask_eq_exp_minus_1)

lemma mask8: "(0xff :: 16 word) = mask 8"
  by (simp add: mask_eq_exp_minus_1)

lemma bmask4: "(0xf :: 8 word) = mask 4"
  by (simp add: mask_eq_exp_minus_1)

lemma data_byte_nibbles: "data_byte w = push_bit 4 (data_regb w) OR data_regc w"
  unfolding data_byte_def data_regb_def data_regc_def mask4 mask8
  apply (rule bit_word_eqI)
  apply (simp add: bit_simps)
  apply (auto simp: not_less not_le)
  done

text \<open>Two nibbles packed into one byte, and read back from it.\<close>

lemma nibbles_low_part:
  "ucast ((ucast (x :: 4 word) OR push_bit 4 (ucast (y :: 4 word)) :: 8 word) AND 0xf) = x"
  unfolding bmask4
  apply (rule bit_word_eqI)
  apply (simp add: bit_simps)
  done

lemma nibbles_high_part:
  "ucast (drop_bit 4 (ucast (x :: 4 word) OR push_bit 4 (ucast (y :: 4 word)) :: 8 word)) = y"
  apply (rule bit_word_eqI)
  apply (auto simp add: bit_simps dest: bit_imp_le_length)
  done

lemma nibbles_unat:
  "unat (ucast (x :: 4 word) OR push_bit 4 (ucast (y :: 4 word)) :: 8 word) = unat x + 16 * unat y"
proof -
  have "(ucast x OR push_bit 4 (ucast y) :: 8 word) = ucast x + push_bit 4 (ucast y)"
  proof (rule disjunctive_add_eq_or [symmetric])
    show "(ucast x :: 8 word) AND push_bit 4 (ucast y) = 0"
      by (rule bit_word_eqI) (auto simp: bit_simps dest: bit_imp_le_length)
  qed
  also have "\<dots> = of_nat (unat x + 16 * unat y)"
    by (simp add: push_bit_eq_mult)
  finally have "unat (ucast x OR push_bit 4 (ucast y) :: 8 word) = (unat x + 16 * unat y) mod 256"
    by (simp only: unat_of_nat) simp
  moreover have "unat x < 16" "unat y < 16"
    using unsigned_less [of x, where 'a = nat] unsigned_less [of y, where 'a = nat] by simp_all
  ultimately show ?thesis by simp
qed

lemma byte_low: "byte first_field_low d = ucast (regb d) OR push_bit 4 (ucast (regc d))"
  by (simp add: byte_def)

lemma byte_high: "byte first_field_high d = ucast (regc d) OR push_bit 4 (ucast (regb d))"
  by (simp add: byte_def or.commute)

section \<open>The claims\<close>

subsection \<open>C1: what opcodes 0xE and 0xF execute\<close>

text \<open>
  Claim C1 says that opcode \<open>0xE\<close> multiplies at a cost of 16 ticks and opcode \<open>0xF\<close> divides
  at a cost of 32 ticks. The enumeration binds \<open>0xE\<close> to the name \<^verbatim>\<open>DIV\<close> and \<open>0xF\<close> to
  \<^verbatim>\<open>MUL\<close>, so \<open>CPU_RUN\<close> sends \<open>0xE\<close> to the division handler and \<open>0xF\<close> to the multiplication
  handler, for every instruction and state. With \<open>reg[1] = 6\<close> and \<open>reg[2] = 3\<close>, opcode \<open>0xE\<close>
  leaves \<open>2\<close> in \<open>reg[0]\<close> for 16 ticks and opcode \<open>0xF\<close> leaves \<open>18\<close> for 32 ticks.
\<close>

theorem C1_opcode_E_divides_opcode_F_multiplies:
  "CPU_RUN ord (d\<lparr>code := 0xE\<rparr>) s = CPU_DIV (d\<lparr>code := 0xE\<rparr>) s
   \<and> CPU_RUN ord (d\<lparr>code := 0xF\<rparr>) s = Inr (CPU_MUL (d\<lparr>code := 0xF\<rparr>) s)
   \<and> CPU_RUN ord \<lparr>code = 0xE, rega = 0, regb = 1, regc = 2\<rparr>
        (CPU_new\<lparr>reg := (reg CPU_new)(1 := 6, 2 := 3)\<rparr>)
      = Inr (16, CPU_new\<lparr>reg := (reg CPU_new)(1 := 6, 2 := 3, 0 := 2), tick := 16\<rparr>)
   \<and> CPU_RUN ord \<lparr>code = 0xF, rega = 0, regb = 1, regc = 2\<rparr>
        (CPU_new\<lparr>reg := (reg CPU_new)(1 := 6, 2 := 3)\<rparr>)
      = Inr (32, CPU_new\<lparr>reg := (reg CPU_new)(1 := 6, 2 := 3, 0 := 18), tick := 32\<rparr>)"
proof -
  have a: "CPU_RUN ord (d\<lparr>code := 0xE\<rparr>) s = CPU_DIV (d\<lparr>code := 0xE\<rparr>) s"
    by (simp add: CPU_RUN_def OP_defs)
  have b: "CPU_RUN ord (d\<lparr>code := 0xF\<rparr>) s = Inr (CPU_MUL (d\<lparr>code := 0xF\<rparr>) s)"
    by (simp add: CPU_RUN_def OP_defs)
  have c: "CPU_RUN ord \<lparr>code = 0xE, rega = 0, regb = 1, regc = 2\<rparr>
        (CPU_new\<lparr>reg := (reg CPU_new)(1 := 6, 2 := 3)\<rparr>)
      = Inr (16, CPU_new\<lparr>reg := (reg CPU_new)(1 := 6, 2 := 3, 0 := 2), tick := 16\<rparr>)"
    by (simp add: CPU_RUN_def OP_defs CPU_DIV_def CPU_addTicks_def tick_count_def
        tick_count_table_def CPU_new_eq)
  have e: "CPU_RUN ord \<lparr>code = 0xF, rega = 0, regb = 1, regc = 2\<rparr>
        (CPU_new\<lparr>reg := (reg CPU_new)(1 := 6, 2 := 3)\<rparr>)
      = Inr (32, CPU_new\<lparr>reg := (reg CPU_new)(1 := 6, 2 := 3, 0 := 18), tick := 32\<rparr>)"
    by (simp add: CPU_RUN_def OP_defs CPU_MUL_def CPU_addTicks_def tick_count_def
        tick_count_table_def CPU_new_eq)
  from a b c e show ?thesis by blast
qed

subsection \<open>C2: division by zero\<close>

text \<open>
  Claim C2 says that a division with \<open>reg[C] = 0\<close> yields an error result, sets the run state
  to stopped and leaves register A as it was. Counterexample to C2: a new machine holds
  zero in every register; started on a program whose first instruction is a division, the
  run ends in the native fault of the division, so \<^verbatim>\<open>start\<close> returns no state at all: there
  is no stopped run state and no register file to read afterwards.
\<close>

theorem C2_division_by_zero_counterexample:
  "CPU_start first_field_low 0
     (CPU_loadProgram [\<lparr>code = OP_DIV, rega = 0, regb = 1, regc = 2\<rparr>] CPU_new)
   = Some (Inl NativeDivideByZero)"
  by (subst CPU_start_def, subst start_loop.simps)
     (simp add: fetch_RUN_def loadProgram_eq CPU_new_eq RUN_DIV_zero)

text \<open>
  Claim C2 as amended: for every machine state, a division instruction (the opcode the
  source names \<^verbatim>\<open>DIV\<close>) with \<open>reg[C] = 0\<close> divides by zero unguarded. The handler, the
  dispatcher and \<^verbatim>\<open>start\<close> all end in the native fault: no tick count is returned, and no
  state with a stopped run state or an untouched register A is produced.
\<close>

theorem C2_division_by_zero_is_native_fault:
  assumes "code d = OP_DIV" and "reg s (regc d) = 0"
  shows "CPU_DIV d s = Inl NativeDivideByZero
       \<and> CPU_RUN ord d s = Inl NativeDivideByZero
       \<and> CPU_start ord pc (s\<lparr>program := (program s)(pc := d)\<rparr>) = Some (Inl NativeDivideByZero)"
proof -
  have a: "CPU_DIV d s = Inl NativeDivideByZero"
    using assms by (simp add: CPU_DIV_def)
  have b: "CPU_RUN ord d s' = Inl NativeDivideByZero" if "reg s' = reg s" for s'
    using assms that by (simp add: RUN_DIV_zero)
  have c: "CPU_start ord pc (s\<lparr>program := (program s)(pc := d)\<rparr>) = Some (Inl NativeDivideByZero)"
    by (subst CPU_start_def, subst start_loop.simps) (simp add: fetch_RUN_def b)
  from a b [of s] c show ?thesis by simp
qed

text \<open>Witness for the amended C2: a division on a new machine, whose registers are all zero.\<close>

theorem C2_division_by_zero_is_native_fault_witness:
  "code \<lparr>code = OP_DIV, rega = 0, regb = 1, regc = 2\<rparr> = OP_DIV
   \<and> reg CPU_new (regc \<lparr>code = OP_DIV, rega = 0, regb = 1, regc = 2\<rparr>) = 0
   \<and> CPU_RUN first_field_low \<lparr>code = OP_DIV, rega = 0, regb = 1, regc = 2\<rparr> CPU_new
       = Inl NativeDivideByZero"
  using C2_division_by_zero_is_native_fault
          [of "\<lparr>code = OP_DIV, rega = 0, regb = 1, regc = 2\<rparr>" CPU_new first_field_low 0]
  by (simp add: CPU_new_eq)

subsection \<open>C3: the link value of JAL\<close>

text \<open>
  Claim C3 says that a JAL fetched at address \<open>p\<close> stores \<open>p + 1\<close> in \<open>reg[A]\<close> and then jumps
  to \<open>reg[B]\<close>. The fetch \<^verbatim>\<open>program[PC++]\<close> has already moved \<^verbatim>\<open>PC\<close> to \<open>p + 1\<close> when the handler
  runs, and the handler links \<^verbatim>\<open>++PC\<close>: the value stored is \<open>p + 2\<close>. The jump does go to the
  old \<open>reg[B]\<close>. At the input of the claim (JAL with A = 1 and B = 2, fetched at 10, with
  \<open>reg[2] = 0x20\<close>) the turn of the loop leaves \<open>12\<close> in \<open>reg[1]\<close> and \<open>0x20\<close> in \<^verbatim>\<open>PC\<close>.
\<close>

theorem C3_JAL_links_fetch_address_plus_two:
  "reg (snd (CPU_JAL d (s\<lparr>PC := p + 1\<rparr>))) (rega d) = p + 2
   \<and> PC (snd (CPU_JAL d (s\<lparr>PC := p + 1\<rparr>))) = reg s (regb d)
   \<and> fetch_RUN ord
        (CPU_new\<lparr>PC := 10, status := running,
                 program := (program CPU_new)(10 := \<lparr>code = OP_JAL, rega = 1, regb = 2, regc = 0\<rparr>),
                 reg := (reg CPU_new)(2 := 0x20)\<rparr>)
      = Inr (4, CPU_new\<lparr>PC := 0x20, status := running,
                 program := (program CPU_new)(10 := \<lparr>code = OP_JAL, rega = 1, regb = 2, regc = 0\<rparr>),
                 reg := (reg CPU_new)(2 := 0x20, 1 := 12), tick := 4\<rparr>)"
proof -
  have a: "reg (snd (CPU_JAL d (s\<lparr>PC := p + 1\<rparr>))) (rega d) = p + 2"
    by (simp add: CPU_JAL_def CPU_addTicks_def Let_def)
  have b: "PC (snd (CPU_JAL d (s\<lparr>PC := p + 1\<rparr>))) = reg s (regb d)"
    by (simp add: CPU_JAL_def CPU_addTicks_def Let_def)
  have c: "fetch_RUN ord
        (CPU_new\<lparr>PC := 10, status := running,
                 program := (program CPU_new)(10 := \<lparr>code = OP_JAL, rega = 1, regb = 2, regc = 0\<rparr>),
                 reg := (reg CPU_new)(2 := 0x20)\<rparr>)
      = Inr (4, CPU_new\<lparr>PC := 0x20, status := running,
                 program := (program CPU_new)(10 := \<lparr>code = OP_JAL, rega = 1, regb = 2, regc = 0\<rparr>),
                 reg := (reg CPU_new)(2 := 0x20, 1 := 12), tick := 4\<rparr>)"
    by (simp add: fetch_RUN_def CPU_RUN_def OP_defs CPU_JAL_def CPU_addTicks_def Let_def
        tick_count_def tick_count_table_def CPU_new_eq)
  from a b c show ?thesis by simp
qed

subsection \<open>C4: reset\<close>

text \<open>
  Claim C4 says that after \<^verbatim>\<open>reset()\<close> from any state the clock is 0, the run state is
  stopped, the registers are 0, the memory cells are \<open>0xFFFF\<close>, the program slots hold the
  default STP instruction and \<^verbatim>\<open>PC\<close> is 0. Counterexample to C4: \<^verbatim>\<open>reset()\<close> does not assign
  \<^verbatim>\<open>PC\<close>; from a state with \<^verbatim>\<open>PC = 5\<close> it leaves \<^verbatim>\<open>PC\<close> different from 0.
\<close>

theorem C4_reset_keeps_PC_counterexample: "PC (CPU_reset (CPU_new\<lparr>PC := 5\<rparr>)) \<noteq> 0"
  by (simp add: CPU_reset_def)

text \<open>
  Claim C4 as amended: after \<^verbatim>\<open>reset()\<close> from any state the clock is 0, the run state is
  stopped, every register is \<open>0x0000\<close>, every memory cell is \<open>0xFFFF\<close> and every program slot
  holds the default instruction, whose opcode is STP; \<^verbatim>\<open>PC\<close> keeps the value it had.
\<close>

theorem C4_reset_state:
  "tick (CPU_reset s) = 0
   \<and> status (CPU_reset s) = stopped
   \<and> reg (CPU_reset s) r = 0x0000
   \<and> mem (CPU_reset s) a = 0xFFFF
   \<and> program (CPU_reset s) p = init_pro
   \<and> code init_pro = OP_STP
   \<and> PC (CPU_reset s) = PC s"
  by (simp add: CPU_reset_def init_reg_def init_mem_def init_pro_def)

subsection \<open>C5: loadProgram and the capacity of the program store\<close>

text \<open>
  Claim C5 says that a sequence longer than the 65536 slots of the program store is rejected
  and never silently truncated. Counterexample to C5: a sequence of 65537 instructions is
  accepted, and the result is the one of loading its first 65536 instructions: the last
  instruction is dropped without notice.
\<close>

theorem C5_loadProgram_truncates_counterexample:
  "CPU_loadProgram (replicate 65536 init_pro @ [\<lparr>code = OP_ADD, rega = 1, regb = 2, regc = 3\<rparr>])
     CPU_new
   = CPU_loadProgram (replicate 65536 init_pro) CPU_new"
proof -
  have "(if unat a < length (replicate 65536 init_pro @ [\<lparr>code = OP_ADD, rega = 1, regb = 2, regc = 3\<rparr>])
         then (replicate 65536 init_pro @ [\<lparr>code = OP_ADD, rega = 1, regb = 2, regc = 3\<rparr>]) ! unat a
         else init_pro)
      = (if unat a < length (replicate 65536 init_pro)
         then replicate 65536 init_pro ! unat a else init_pro)" for a :: "16 word"
    using unat_word16_less [of a] by (simp add: nth_append)
  then show ?thesis by (simp only: loadProgram_eq)
qed

text \<open>
  Claim C5 as amended: \<^verbatim>\<open>loadProgram\<close> has no capacity check and always succeeds. For a
  sequence of any length, slot \<open>a\<close> of the program store receives the instruction at index
  \<open>a\<close> of the sequence when there is one and the default instruction otherwise, and nothing
  else of the machine changes; so a sequence of at most 65536 instructions is copied whole
  from address 0 with the rest filled by the default instruction, and of a longer one
  exactly the first 65536 instructions are loaded.
\<close>

theorem C5_loadProgram_copies_first_65536:
  "CPU_loadProgram xs s =
      s\<lparr>program := (\<lambda>a. if unat a < length xs then xs ! unat a else init_pro)\<rparr>
   \<and> program (CPU_loadProgram xs s) a = (if unat a < length xs then xs ! unat a else init_pro)
   \<and> CPU_loadProgram xs s = CPU_loadProgram (take 65536 xs) s"
proof -
  have "(if unat a < length xs then xs ! unat a else init_pro)
      = (if unat a < length (take 65536 xs) then take 65536 xs ! unat a else init_pro)"
    for a :: "16 word"
    using unat_word16_less [of a] by simp
  then have "CPU_loadProgram xs s = CPU_loadProgram (take 65536 xs) s"
    by (simp only: loadProgram_eq)
  then show ?thesis using loadProgram_eq [of xs s] loadProgram_program [of xs s a] by simp
qed

subsection \<open>C6: the immediate byte and the two register nibbles\<close>

text \<open>
  Claim C6 says that the immediate byte has \<open>regB\<close> as its high nibble and \<open>regC\<close> as its low
  nibble: \<open>byte = (regB << 4) | regC\<close>. Counterexample to C6: in \<^verbatim>\<open>struct Instruction\<close> the
  fields are bit-fields in a union, and with the first-declared field in the low-order bits
  an instruction with \<open>regb = 0xA\<close> and \<open>regc = 0xB\<close> has the byte \<open>0xBA\<close>, where the claim
  requires \<open>0xAB\<close>.
\<close>

theorem C6_bit_field_byte_counterexample:
  "byte first_field_low \<lparr>code = OP_SLB, rega = 0, regb = 0xA, regc = 0xB\<rparr> = 0xBA
   \<and> push_bit 4 (ucast (regb \<lparr>code = OP_SLB, rega = 0, regb = 0xA, regc = 0xB\<rparr>))
         OR ucast (regc \<lparr>code = OP_SLB, rega = 0, regb = 0xA, regc = 0xB\<rparr>) = (0xAB :: BYTE)
   \<and> byte first_field_low \<lparr>code = OP_SLB, rega = 0, regb = 0xA, regc = 0xB\<rparr>
       \<noteq> push_bit 4 (ucast (regb \<lparr>code = OP_SLB, rega = 0, regb = 0xA, regc = 0xB\<rparr>))
           OR ucast (regc \<lparr>code = OP_SLB, rega = 0, regb = 0xA, regc = 0xB\<rparr>)"
  by (simp add: byte_def)

text \<open>
  Claim C6 as amended: for every instruction the immediate \<^verbatim>\<open>byte\<close> is the whole byte of the
  union and holds both nibbles, so the same bits are read as the two 4-bit fields or as the
  one 8-bit immediate, each field being recovered from the byte by a shift and a mask. Which
  nibble is which follows the order in which the compiler allocates bit-fields. With the
  first-declared field in the low-order bits, \<open>regb\<close> is the low nibble and \<open>regc\<close> the high
  nibble: \<open>byte = regb + 16 * regc\<close>, and SLB with \<open>regb = 1\<close>, \<open>regc = 2\<close> writes \<open>0x21\<close>. With the
  opposite order \<open>byte = (regb << 4) | regc = 16 * regb + regc\<close>, as the claim has it. The
  accessor functions of the instruction stored as one \<^verbatim>\<open>WORD\<close> satisfy the identity of the
  claim for every word.
\<close>

theorem C6_byte_holds_both_nibbles:
  "unat (byte first_field_low d) = unat (regb d) + 16 * unat (regc d)
   \<and> ucast (byte first_field_low d AND 0xf) = regb d
   \<and> ucast (drop_bit 4 (byte first_field_low d)) = regc d
   \<and> byte first_field_high d = push_bit 4 (ucast (regb d)) OR ucast (regc d)
   \<and> unat (byte first_field_high d) = 16 * unat (regb d) + unat (regc d)
   \<and> ucast (drop_bit 4 (byte first_field_high d)) = regb d
   \<and> ucast (byte first_field_high d AND 0xf) = regc d
   \<and> reg (snd (CPU_SLB first_field_low \<lparr>code = OP_SLB, rega = 0, regb = 1, regc = 2\<rparr> CPU_new)) 0
       = 0x0021
   \<and> reg (snd (CPU_SLB first_field_high \<lparr>code = OP_SLB, rega = 0, regb = 1, regc = 2\<rparr> CPU_new)) 0
       = 0x0012
   \<and> data_byte w = push_bit 4 (data_regb w) OR data_regc w"
proof -
  have l1: "unat (byte first_field_low d) = unat (regb d) + 16 * unat (regc d)"
    by (simp only: byte_low nibbles_unat)
  have l2: "ucast (byte first_field_low d AND 0xf) = regb d"
    by (simp only: byte_low nibbles_low_part)
  have l3: "ucast (drop_bit 4 (byte first_field_low d)) = regc d"
    by (simp only: byte_low nibbles_high_part)
  have h0: "byte first_field_high d = push_bit 4 (ucast (regb d)) OR ucast (regc d)"
    by (simp add: byte_def)
  have h1: "unat (byte first_field_high d) = 16 * unat (regb d) + unat (regc d)"
    by (simp only: byte_high nibbles_unat add.commute)
  have h2: "ucast (drop_bit 4 (byte first_field_high d)) = regb d"
    by (simp only: byte_high nibbles_high_part)
  have h3: "ucast (byte first_field_high d AND 0xf) = regc d"
    by (simp only: byte_high nibbles_low_part)
  have e1: "reg (snd (CPU_SLB first_field_low \<lparr>code = OP_SLB, rega = 0, regb = 1, regc = 2\<rparr> CPU_new)) 0
       = 0x0021"
    by (simp add: CPU_SLB_def CPU_addTicks_def Let_def byte_def CPU_new_eq)
  have e2: "reg (snd (CPU_SLB first_field_high \<lparr>code = OP_SLB, rega = 0, regb = 1, regc = 2\<rparr> CPU_new)) 0
       = 0x0012"
    by (simp add: CPU_SLB_def CPU_addTicks_def Let_def byte_def CPU_new_eq)
  from l1 l2 l3 h0 h1 h2 h3 e1 e2 data_byte_nibbles [of w] show ?thesis by blast
qed

subsection \<open>C7: tick accounting\<close>

text \<open>
  Claim C7: the ticks one instruction adds to the clock are the entry of the tick table at its
  opcode, whatever the operands and the state (so also whether a JIE or JIL jumps or not);
  after any \<open>n\<close> instructions executed in sequence the clock has grown by the sum of the
  table entries of their opcodes, in the arithmetic of the 64-bit \<^verbatim>\<open>COUNT\<close>; and the table
  holds, opcode by opcode from \<open>0x0\<close> to \<open>0xF\<close>, the costs 2, 4, 6, 6, 12, 8, 4, 4, 4, 4, 4, 4,
  8, 8, 16, 32.
\<close>

theorem C7_clock_is_sum_of_opcode_costs:
  "(CPU_RUN ord d s = Inr (t, s1) \<longrightarrow>
       t = tick_count (code d) \<and> tick s1 = tick s + tick_count (code d))
   \<and> (cycles ord n s0 = Inr (ds, s') \<longrightarrow>
       length ds = n \<and> tick s' = tick s0 + sum_list (map (\<lambda>d. tick_count (code d)) ds))
   \<and> map tick_count [0, 1, 2, 3, 4, 5, 6, 7, 8, 9, 10, 11, 12, 13, 14, 15]
       = [2, 4, 6, 6, 12, 8, 4, 4, 4, 4, 4, 4, 8, 8, 16, 32]"
  using RUN_ticks [of ord d s t s1] cycles_ticks [of ord n s0 ds s'] tick_count_values
  by blast

text \<open>
  Witness for C7: a JIE that jumps costs 6 ticks; a JIL that does not jump followed by an STP
  costs 6 + 2 = 8 ticks.
\<close>

theorem C7_clock_is_sum_of_opcode_costs_witness:
  "CPU_RUN first_field_low \<lparr>code = OP_JIE, rega = 0, regb = 1, regc = 2\<rparr>
       (CPU_new\<lparr>reg := (reg CPU_new)(2 := 7)\<rparr>)
     = Inr (6, CPU_new\<lparr>reg := (reg CPU_new)(2 := 7), PC := 7, tick := 6\<rparr>)
   \<and> cycles first_field_low 2
       (CPU_new\<lparr>program := (program CPU_new)(0 := \<lparr>code = OP_JIL, rega = 0, regb = 1, regc = 2\<rparr>)\<rparr>)
     = Inr ([\<lparr>code = OP_JIL, rega = 0, regb = 1, regc = 2\<rparr>, init_pro],
            CPU_new\<lparr>program := (program CPU_new)(0 := \<lparr>code = OP_JIL, rega = 0, regb = 1, regc = 2\<rparr>),
                    PC := 2, status := stopped, tick := 8\<rparr>)
   \<and> tick (CPU_new\<lparr>program := (program CPU_new)(0 := \<lparr>code = OP_JIL, rega = 0, regb = 1, regc = 2\<rparr>),
                    PC := 2, status := stopped, tick := 8\<rparr>)
     = tick (CPU_new\<lparr>program := (program CPU_new)(0 := \<lparr>code = OP_JIL, rega = 0, regb = 1, regc = 2\<rparr>)\<rparr>)
       + sum_list (map (\<lambda>d. tick_count (code d))
                    [\<lparr>code = OP_JIL, rega = 0, regb = 1, regc = 2\<rparr>, init_pro])"
proof -
  have h1: "CPU_RUN first_field_low \<lparr>code = OP_JIE, rega = 0, regb = 1, regc = 2\<rparr>
       (CPU_new\<lparr>reg := (reg CPU_new)(2 := 7)\<rparr>)
     = Inr (6, CPU_new\<lparr>reg := (reg CPU_new)(2 := 7), PC := 7, tick := 6\<rparr>)"
    by (simp add: CPU_RUN_def OP_defs CPU_JIE_def CPU_addTicks_def tick_count_def
        tick_count_table_def CPU_new_eq)
  have h2: "cycles first_field_low 2
       (CPU_new\<lparr>program := (program CPU_new)(0 := \<lparr>code = OP_JIL, rega = 0, regb = 1, regc = 2\<rparr>)\<rparr>)
     = Inr ([\<lparr>code = OP_JIL, rega = 0, regb = 1, regc = 2\<rparr>, init_pro],
            CPU_new\<lparr>program := (program CPU_new)(0 := \<lparr>code = OP_JIL, rega = 0, regb = 1, regc = 2\<rparr>),
                    PC := 2, status := stopped, tick := 8\<rparr>)"
    by (simp add: numeral_2_eq_2 fetch_RUN_def CPU_RUN_def OP_defs CPU_JIL_def CPU_STP_def
        CPU_addTicks_def tick_count_simps CPU_new_eq init_pro_def)
  from h1 h2
    C7_clock_is_sum_of_opcode_costs [of first_field_low "\<lparr>code = OP_JIE, rega = 0, regb = 1, regc = 2\<rparr>"
          "CPU_new\<lparr>reg := (reg CPU_new)(2 := 7)\<rparr>" 6
          "CPU_new\<lparr>reg := (reg CPU_new)(2 := 7), PC := 7, tick := 6\<rparr>" 2
          "CPU_new\<lparr>program := (program CPU_new)(0 := \<lparr>code = OP_JIL, rega = 0, regb = 1, regc = 2\<rparr>)\<rparr>"
          "[\<lparr>code = OP_JIL, rega = 0, regb = 1, regc = 2\<rparr>, init_pro]"
          "CPU_new\<lparr>program := (program CPU_new)(0 := \<lparr>code = OP_JIL, rega = 0, regb = 1, regc = 2\<rparr>),
                    PC := 2, status := stopped, tick := 8\<rparr>"]
  show ?thesis by blast
qed

subsection \<open>C8: a program of STP instructions\<close>

text \<open>
  Claim C8: on a machine that has been reset and then loaded with a program whose instructions
  all have the opcode STP, \<^verbatim>\<open>start(0)\<close> returns; the clock, 0 after the reset, is then exactly
  2, the tick cost of STP, and the run state is stopped.
\<close>

theorem C8_all_STP_program_halts:
  assumes "\<forall>d \<in> set xs. code d = OP_STP"
  shows "CPU_start ord 0 (CPU_loadProgram xs (CPU_reset s))
           = Some (Inr ((CPU_loadProgram xs (CPU_reset s))\<lparr>PC := 1, status := stopped, tick := 2\<rparr>))
         \<and> tick (CPU_loadProgram xs (CPU_reset s)) = 0
         \<and> tick_count OP_STP = 2"
proof -
  let ?m = "CPU_loadProgram xs (CPU_reset s)"
  have "code (program ?m 0) = OP_STP" using assms by (rule all_STP_program)
  from start_STP [OF this, of ord]
  have "CPU_start ord 0 ?m = Some (Inr (?m\<lparr>PC := 0 + 1, status := stopped, tick := tick ?m + 2\<rparr>))" .
  moreover have "tick ?m = 0" by (simp add: loadProgram_eq CPU_reset_def)
  moreover have "tick_count OP_STP = 2" by (simp add: OP_STP_def tick_count_simps)
  ultimately show ?thesis by simp
qed

text \<open>Witness for C8: a program of two STP instructions, one of them with operand fields set.\<close>

theorem C8_all_STP_program_halts_witness:
  "code \<lparr>code = OP_STP, rega = 3, regb = 1, regc = 2\<rparr> = OP_STP
   \<and> code init_pro = OP_STP
   \<and> CPU_start first_field_low 0
         (CPU_loadProgram [\<lparr>code = OP_STP, rega = 3, regb = 1, regc = 2\<rparr>, init_pro]
            (CPU_reset CPU_new))
       = Some (Inr ((CPU_loadProgram [\<lparr>code = OP_STP, rega = 3, regb = 1, regc = 2\<rparr>, init_pro]
                      (CPU_reset CPU_new))\<lparr>PC := 1, status := stopped, tick := 2\<rparr>))"
proof -
  have h: "\<forall>d \<in> set [\<lparr>code = OP_STP, rega = 3, regb = 1, regc = 2\<rparr>, init_pro]. code d = OP_STP"
    by (simp add: init_pro_def)
  from C8_all_STP_program_halts [OF h, of first_field_low CPU_new] h show ?thesis by simp
qed

subsection \<open>C9: wrap-around of ADD, SUB and MUL\<close>

text \<open>
  Claim C9: for all register values and each of the handlers ADD, SUB and MUL, the value
  stored in \<open>reg[A]\<close> is \<open>(reg[B] <op> reg[C]) mod 65536\<close>, also across the wrap-around
  boundaries: \<open>0xFFFF + 0x0001 = 0x0000\<close>, \<open>0x0000 - 0x0001 = 0xFFFF\<close> and
  \<open>0x8000 * 0x0002 = 0x0000\<close>. The dispatcher runs these handlers for the opcodes the source
  names \<^verbatim>\<open>ADD\<close>, \<^verbatim>\<open>SUB\<close> and \<^verbatim>\<open>MUL\<close>. Nothing saturates, and there is no overflow flag: the
  state after the handler differs from the state before it in \<open>reg[A]\<close> and the clock only.
\<close>

theorem C9_add_sub_mul_wrap:
  "uint (reg (snd (CPU_ADD d s)) (rega d)) = (uint (reg s (regb d)) + uint (reg s (regc d))) mod 65536
   \<and> uint (reg (snd (CPU_SUB d s)) (rega d)) = (uint (reg s (regb d)) - uint (reg s (regc d))) mod 65536
   \<and> uint (reg (snd (CPU_MUL d s)) (rega d)) = (uint (reg s (regb d)) * uint (reg s (regc d))) mod 65536
   \<and> snd (CPU_ADD d s)
       = s\<lparr>reg := (reg s)(rega d := reg s (regb d) + reg s (regc d)),
           tick := tick s + tick_count (code d)\<rparr>
   \<and> snd (CPU_SUB d s)
       = s\<lparr>reg := (reg s)(rega d := reg s (regb d) - reg s (regc d)),
           tick := tick s + tick_count (code d)\<rparr>
   \<and> snd (CPU_MUL d s)
       = s\<lparr>reg := (reg s)(rega d := reg s (regb d) * reg s (regc d)),
           tick := tick s + tick_count (code d)\<rparr>
   \<and> CPU_RUN ord (d\<lparr>code := OP_ADD\<rparr>) s = Inr (CPU_ADD (d\<lparr>code := OP_ADD\<rparr>) s)
   \<and> CPU_RUN ord (d\<lparr>code := OP_SUB\<rparr>) s = Inr (CPU_SUB (d\<lparr>code := OP_SUB\<rparr>) s)
   \<and> CPU_RUN ord (d\<lparr>code := OP_MUL\<rparr>) s = Inr (CPU_MUL (d\<lparr>code := OP_MUL\<rparr>) s)
   \<and> reg (snd (CPU_ADD \<lparr>code = OP_ADD, rega = 0, regb = 1, regc = 2\<rparr>
                   (s\<lparr>reg := (reg s)(1 := 0xFFFF, 2 := 0x0001)\<rparr>))) 0 = 0x0000
   \<and> reg (snd (CPU_SUB \<lparr>code = OP_SUB, rega = 0, regb = 1, regc = 2\<rparr>
                   (s\<lparr>reg := (reg s)(1 := 0x0000, 2 := 0x0001)\<rparr>))) 0 = 0xFFFF
   \<and> reg (snd (CPU_MUL \<lparr>code = OP_MUL, rega = 0, regb = 1, regc = 2\<rparr>
                   (s\<lparr>reg := (reg s)(1 := 0x8000, 2 := 0x0002)\<rparr>))) 0 = 0x0000"
proof -
  have a: "uint (reg (snd (CPU_ADD d s)) (rega d))
             = (uint (reg s (regb d)) + uint (reg s (regc d))) mod 65536"
    by (simp add: CPU_ADD_def CPU_addTicks_def uint_word_ariths)
  have b: "uint (reg (snd (CPU_SUB d s)) (rega d))
             = (uint (reg s (regb d)) - uint (reg s (regc d))) mod 65536"
    by (simp add: CPU_SUB_def CPU_addTicks_def uint_word_ariths)
  have c: "uint (reg (snd (CPU_MUL d s)) (rega d))
             = (uint (reg s (regb d)) * uint (reg s (regc d))) mod 65536"
    by (simp add: CPU_MUL_def CPU_addTicks_def uint_word_ariths)
  have f1: "snd (CPU_ADD d s)
       = s\<lparr>reg := (reg s)(rega d := reg s (regb d) + reg s (regc d)),
           tick := tick s + tick_count (code d)\<rparr>"
    by (simp add: CPU_ADD_def CPU_addTicks_def)
  have f2: "snd (CPU_SUB d s)
       = s\<lparr>reg := (reg s)(rega d := reg s (regb d) - reg s (regc d)),
           tick := tick s + tick_count (code d)\<rparr>"
    by (simp add: CPU_SUB_def CPU_addTicks_def)
  have f3: "snd (CPU_MUL d s)
       = s\<lparr>reg := (reg s)(rega d := reg s (regb d) * reg s (regc d)),
           tick := tick s + tick_count (code d)\<rparr>"
    by (simp add: CPU_MUL_def CPU_addTicks_def)
  have r1: "CPU_RUN ord (d\<lparr>code := OP_ADD\<rparr>) s = Inr (CPU_ADD (d\<lparr>code := OP_ADD\<rparr>) s)"
    by (simp add: CPU_RUN_def OP_defs)
  have r2: "CPU_RUN ord (d\<lparr>code := OP_SUB\<rparr>) s = Inr (CPU_SUB (d\<lparr>code := OP_SUB\<rparr>) s)"
    by (simp add: CPU_RUN_def OP_defs)
  have r3: "CPU_RUN ord (d\<lparr>code := OP_MUL\<rparr>) s = Inr (CPU_MUL (d\<lparr>code := OP_MUL\<rparr>) s)"
    by (simp add: CPU_RUN_def OP_defs)
  have e1: "reg (snd (CPU_ADD \<lparr>code = OP_ADD, rega = 0, regb = 1, regc = 2\<rparr>
                   (s\<lparr>reg := (reg s)(1 := 0xFFFF, 2 := 0x0001)\<rparr>))) 0 = 0x0000"
    by (simp add: CPU_ADD_def CPU_addTicks_def)
  have e2: "reg (snd (CPU_SUB \<lparr>code = OP_SUB, rega = 0, regb = 1, regc = 2\<rparr>
                   (s\<lparr>reg := (reg s)(1 := 0x0000, 2 := 0x0001)\<rparr>))) 0 = 0xFFFF"
    by (simp add: CPU_SUB_def CPU_addTicks_def)
  have e3: "reg (snd (CPU_MUL \<lparr>code = OP_MUL, rega = 0, regb = 1, regc = 2\<rparr>
                   (s\<lparr>reg := (reg s)(1 := 0x8000, 2 := 0x0002)\<rparr>))) 0 = 0x0000"
    by (simp add: CPU_MUL_def CPU_addTicks_def)
  from a b c f1 f2 f3 r1 r2 r3 e1 e2 e3 show ?thesis by blast
qed

subsection \<open>C10: no instruction writes the program store\<close>

text \<open>
  Claim C10: executing one instruction, whatever its opcode, its operands and the state,
  leaves the program store as it was; so does a turn of the fetch-and-run loop and a whole
  run of \<^verbatim>\<open>start\<close>. STR writes the memory bank only.
\<close>

theorem C10_program_store_unchanged:
  "(CPU_RUN ord d s = Inr (t, s1) \<longrightarrow> program s1 = program s)
   \<and> (fetch_RUN ord s = Inr (t, s2) \<longrightarrow> program s2 = program s)
   \<and> (CPU_start ord pc s = Some (Inr s3) \<longrightarrow> program s3 = program s)
   \<and> program (snd (CPU_STR d s)) = program s"
  using RUN_program [of ord d s t s1] fetch_RUN_program [of ord s t s2]
    start_program [of ord pc s s3] handler_program(5) [of d s]
  by blast

text \<open>
  Witness for C10: an STR that writes \<open>mem[0]\<close>, one turn of the loop on a new machine, and a run
  of \<^verbatim>\<open>start\<close> on a new machine.
\<close>

theorem C10_program_store_unchanged_witness:
  "CPU_RUN first_field_low \<lparr>code = OP_STR, rega = 1, regb = 2, regc = 0\<rparr>
       (CPU_new\<lparr>reg := (reg CPU_new)(1 := 0x1234, 2 := 0)\<rparr>)
     = Inr (12, CPU_new\<lparr>reg := (reg CPU_new)(1 := 0x1234, 2 := 0),
                        mem := (mem CPU_new)(0 := 0x1234), tick := 12\<rparr>)
   \<and> fetch_RUN first_field_low CPU_new = Inr (2, CPU_new\<lparr>PC := 1, tick := 2\<rparr>)
   \<and> CPU_start first_field_low 0 CPU_new
     = Some (Inr (CPU_new\<lparr>PC := 1, status := stopped, tick := 2\<rparr>))
   \<and> program (CPU_new\<lparr>reg := (reg CPU_new)(1 := 0x1234, 2 := 0),
                        mem := (mem CPU_new)(0 := 0x1234), tick := 12\<rparr>)
     = program (CPU_new\<lparr>reg := (reg CPU_new)(1 := 0x1234, 2 := 0)\<rparr>)
   \<and> program (CPU_new\<lparr>PC := 1, status := stopped, tick := 2\<rparr>) = program CPU_new"
proof -
  have h1: "CPU_RUN first_field_low \<lparr>code = OP_STR, rega = 1, regb = 2, regc = 0\<rparr>
       (CPU_new\<lparr>reg := (reg CPU_new)(1 := 0x1234, 2 := 0)\<rparr>)
     = Inr (12, CPU_new\<lparr>reg := (reg CPU_new)(1 := 0x1234, 2 := 0),
                        mem := (mem CPU_new)(0 := 0x1234), tick := 12\<rparr>)"
    by (simp add: CPU_RUN_def OP_defs CPU_STR_def CPU_addTicks_def tick_count_def
        tick_count_table_def CPU_new_eq)
  have h2: "fetch_RUN first_field_low CPU_new = Inr (2, CPU_new\<lparr>PC := 1, tick := 2\<rparr>)"
    by (simp add: fetch_RUN_def CPU_RUN_def OP_defs CPU_STP_def CPU_addTicks_def tick_count_def
        tick_count_table_def CPU_new_eq init_pro_def)
  have "code (program CPU_new 0) = OP_STP" by (simp add: CPU_new_eq init_pro_def)
  from start_STP [OF this, of first_field_low]
  have h3: "CPU_start first_field_low 0 CPU_new
     = Some (Inr (CPU_new\<lparr>PC := 1, status := stopped, tick := 2\<rparr>))"
    by (simp add: CPU_new_eq)
  from h1 h2 h3
    C10_program_store_unchanged [of first_field_low "\<lparr>code = OP_STR, rega = 1, regb = 2, regc = 0\<rparr>"
          "CPU_new\<lparr>reg := (reg CPU_new)(1 := 0x1234, 2 := 0)\<rparr>" 12
          "CPU_new\<lparr>reg := (reg CPU_new)(1 := 0x1234, 2 := 0),
                        mem := (mem CPU_new)(0 := 0x1234), tick := 12\<rparr>"]
    C10_program_store_unchanged [of first_field_low _ CPU_new 2 _ "CPU_new\<lparr>PC := 1, tick := 2\<rparr>" 0
          "CPU_new\<lparr>PC := 1, status := stopped, tick := 2\<rparr>"]
  show ?thesis by blast
qed

end
